theory Spec2Isabelle
  imports Complex_Main
begin

section \<open>The relational schema of \<^verbatim>\<open>server.ts\<close>\<close>

text \<open>
  The six tables created by \<^verbatim>\<open>db.exec\<close> at start-up. A table is the list of its rows in
  rowid order. A \<^verbatim>\<open>REAL\<close> column holds a finite double, modelled by the real number it
  denotes; \<^verbatim>\<open>INTEGER\<close> columns hold integers. Date columns hold the instant they denote
  (milliseconds for the ISO strings written by the handlers, the database clock for
  \<^verbatim>\<open>CURRENT_TIMESTAMP\<close>). The status of a case is the three-valued union of the
  \<^verbatim>\<open>Case\<close> interface.
\<close>

datatype case_status = PARADO | EM_CAMPO | REPOSICAO_NECESSARIA

record employee_row =
  e_id :: int
  e_name :: string
  e_whatsapp :: string
  e_created_at :: int

record product_row =
  p_id :: int
  p_name :: string
  p_category :: string
  p_price :: real
  p_photo :: "string option"
  p_status :: string
  p_created_at :: int

record case_row =
  c_id :: int
  c_name :: string
  c_employee_id :: "int option"
  c_photo :: "string option"
  c_delivery_date :: int
  c_return_date :: int
  c_status :: case_status
  c_total_value :: real

record case_item_row =
  ci_id :: int
  ci_case_id :: int
  ci_product_id :: int
  ci_quantity :: int
  ci_price_at_time :: real

record manual_commission_row =
  mc_id :: int
  mc_employee_id :: int
  mc_product_name :: string
  mc_price :: real
  mc_commission_value :: real
  mc_created_at :: int

record log_row =
  l_id :: int
  l_case_id :: "int option"
  l_action :: string
  l_details :: string
  l_created_at :: int

text \<open>
  The database: the rows of every table and, for each \<^verbatim>\<open>AUTOINCREMENT\<close> key, the largest
  rowid ever handed out (SQLite's \<^verbatim>\<open>sqlite_sequence\<close>).
\<close>

record db =
  employees :: "employee_row list"
  products :: "product_row list"
  cases :: "case_row list"
  case_items :: "case_item_row list"
  manual_commissions :: "manual_commission_row list"
  logs :: "log_row list"
  seq_employees :: int
  seq_products :: int
  seq_cases :: int
  seq_case_items :: int
  seq_manual_commissions :: int
  seq_logs :: int

definition empty_db :: db where
  "empty_db = \<lparr>employees = [], products = [], cases = [], case_items = [],
     manual_commissions = [], logs = [], seq_employees = 0, seq_products = 0, seq_cases = 0,
     seq_case_items = 0, seq_manual_commissions = 0, seq_logs = 0\<rparr>"

section \<open>JavaScript numbers\<close>

text \<open>
  A JavaScript number is an IEEE 754 double, and so is what a \<^verbatim>\<open>REAL\<close> column stores. A
  finite double is modelled by the real number it denotes. \<open>to_double\<close> rounds a real to
  the nearest double, ties to the even significand: the significand has 53 bits and the
  exponent of the last place is at least \<open>-1074\<close> (gradual underflow). The product and the
  sum of two doubles are the exact result rounded, so \<^verbatim>\<open>x * y\<close> and \<^verbatim>\<open>x + y\<close> are \<open>js_mul\<close>
  and \<open>js_add\<close>; a decimal literal denotes the double nearest to it. Numbers in request
  bodies are doubles already. Results of magnitude \<open>2 ^ 1024\<close> and beyond, which are
  \<^verbatim>\<open>Infinity\<close> in JavaScript, lie outside this model.
\<close>

text \<open>The measure of \<open>ilog2\<close>, the integer binary logarithm of a positive real.\<close>

definition ilog2_size :: "real \<Rightarrow> nat" where
  "ilog2_size x = (if 2 \<le> x then nat \<lfloor>x\<rfloor> else if 0 < x \<and> x < 1 then nat \<lceil>1 / x\<rceil> else 0)"

function ilog2 :: "real \<Rightarrow> int" where
  "ilog2 x = (if 2 \<le> x then ilog2 (x / 2) + 1
              else if 0 < x \<and> x < 1 then ilog2 (x * 2) - 1
              else 0)"
  by pat_completeness auto
termination
proof (relation "measure ilog2_size")
  show "wf (measure ilog2_size)" by simp
next
  fix x :: real
  assume x: "2 \<le> x"
  have "x / 2 \<le> x - 1" using x by simp
  then have "\<lfloor>x / 2\<rfloor> \<le> \<lfloor>x - 1\<rfloor>" by (rule floor_mono)
  then have lt: "\<lfloor>x / 2\<rfloor> < \<lfloor>x\<rfloor>" by simp
  have ge: "2 \<le> \<lfloor>x\<rfloor>" using x by (simp add: le_floor_iff)
  have "ilog2_size (x / 2) < ilog2_size x"
  proof (cases "2 \<le> x / 2")
    case True
    with x lt ge show ?thesis by (simp add: ilog2_size_def)
  next
    case False
    with x ge show ?thesis by (simp add: ilog2_size_def)
  qed
  then show "(x / 2, x) \<in> measure ilog2_size" by simp
next
  fix x :: real
  assume "\<not> 2 \<le> x" and x: "0 < x \<and> x < 1"
  then have one: "1 < 1 / x" by simp
  then have ge: "2 \<le> \<lceil>1 / x\<rceil>" by (simp add: le_ceiling_iff)
  have "ilog2_size (x * 2) < ilog2_size x"
  proof (cases "x * 2 < 1")
    case True
    then have "2 \<le> 1 / x" using x by (simp add: field_simps)
    then have "1 / (x * 2) \<le> 1 / x - 1" by (simp add: field_simps)
    then have "\<lceil>1 / (x * 2)\<rceil> \<le> \<lceil>1 / x - 1\<rceil>" by (rule ceiling_mono)
    then have "\<lceil>1 / (x * 2)\<rceil> < \<lceil>1 / x\<rceil>" by simp
    with True x ge show ?thesis by (simp add: ilog2_size_def)
  next
    case False
    with x ge show ?thesis by (simp add: ilog2_size_def)
  qed
  then show "(x * 2, x) \<in> measure ilog2_size" by simp
qed

declare ilog2.simps [simp del]

definition round_ties_even :: "real \<Rightarrow> int" where
  "round_ties_even y =
     (let n = \<lfloor>y\<rfloor>; d = y - of_int n
      in if d < 1 / 2 then n else if 1 / 2 < d then n + 1 else if even n then n else n + 1)"

definition ulp_exponent :: "real \<Rightarrow> int" where
  "ulp_exponent x = max (- 1074) (ilog2 \<bar>x\<bar> - 52)"

definition to_double :: "real \<Rightarrow> real" where
  "to_double x =
     of_int (round_ties_even (x / 2 powi ulp_exponent x)) * 2 powi ulp_exponent x"

definition js_mul :: "real \<Rightarrow> real \<Rightarrow> real" where
  "js_mul x y = to_double (x * y)"

definition js_add :: "real \<Rightarrow> real \<Rightarrow> real" where
  "js_add x y = to_double (x + y)"

section \<open>The commission calculator and the premium flag\<close>

text \<open>
  \<^verbatim>\<open>calculateCommission\<close> returns the object \<^verbatim>\<open>{ rate: rate * 100, value: total * rate }\<close>;
  the pair below is (rate in percent, payout).
\<close>

definition calculateCommission :: "real \<Rightarrow> real \<times> real" where
  "calculateCommission tot =
     (let rate = (if tot \<ge> 5000 then to_double 0.4 else to_double 0.3)
      in (js_mul rate 100, js_mul tot rate))"

text \<open>\<^verbatim>\<open>const isPremium = c.total_value > 8000\<close> in \<^verbatim>\<open>renderCases\<close>.\<close>

definition isPremium :: "case_row \<Rightarrow> bool" where
  "isPremium c = (c_total_value c > 8000)"

section \<open>SQL statements\<close>

text \<open>
  \<^verbatim>\<open>INTEGER PRIMARY KEY AUTOINCREMENT\<close>: the new rowid is one more than the largest rowid the
  table has ever held.
\<close>

definition next_rowid :: "int \<Rightarrow> int list \<Rightarrow> int" where
  "next_rowid seq ids = max seq (fold max ids 0) + 1"

text \<open>
  The schema declares \<^verbatim>\<open>FOREIGN KEY ... REFERENCES\<close> clauses on \<^verbatim>\<open>cases\<close>, \<^verbatim>\<open>case_items\<close>
  and \<^verbatim>\<open>manual_commissions\<close>. Whether SQLite enforces them is a setting of the connection
  (\<^verbatim>\<open>foreign_keys\<close>), which the source leaves at the default of the driver's SQLite build:
  on in the build that \<^verbatim>\<open>better-sqlite3\<close> bundles (\<^verbatim>\<open>SQLITE_DEFAULT_FOREIGN_KEYS=1\<close>), off
  in stock SQLite. It is the parameter \<open>fk\<close> of every statement below. Constraints are
  immediate: a statement that would leave a child row without its parent throws, modelled as
  \<open>None\<close>, and a \<^verbatim>\<open>NULL\<close> child key refers to nothing.
\<close>

definition parent_exists :: "bool \<Rightarrow> int option \<Rightarrow> int list \<Rightarrow> bool" where
  "parent_exists fk k parent_ids =
     (if fk then (case k of None \<Rightarrow> True | Some i \<Rightarrow> i \<in> set parent_ids) else True)"

text \<open>\<^verbatim>\<open>SUM(col)\<close> is \<^verbatim>\<open>NULL\<close> over no rows.\<close>

fun sql_sum :: "real list \<Rightarrow> real option" where
  "sql_sum [] = None"
| "sql_sum (x # xs) = Some (case sql_sum xs of None \<Rightarrow> x | Some y \<Rightarrow> x + y)"

fun sql_count :: "('a \<Rightarrow> bool) \<Rightarrow> 'a list \<Rightarrow> int" where
  "sql_count P [] = 0"
| "sql_count P (r # rs) = (if P r then 1 else 0) + sql_count P rs"

definition coalesce0 :: "real option \<Rightarrow> real" where
  "coalesce0 v = (case v of None \<Rightarrow> 0 | Some x \<Rightarrow> x)"

text \<open>JavaScript's \<^verbatim>\<open>x || 0\<close> on a number or \<^verbatim>\<open>null\<close>.\<close>

definition js_or0 :: "real option \<Rightarrow> real" where
  "js_or0 v = (case v of None \<Rightarrow> 0 | Some x \<Rightarrow> if x = 0 then 0 else x)"

text \<open>JavaScript's truthiness of \<^verbatim>\<open>employee_id\<close>, a number or \<^verbatim>\<open>null\<close>.\<close>

definition truthy :: "int option \<Rightarrow> bool" where
  "truthy v = (case v of None \<Rightarrow> False | Some n \<Rightarrow> n \<noteq> 0)"

text \<open>Template-literal rendering of a length, as in \<^verbatim>\<open>${items.length}\<close>.\<close>

definition digit_char :: "nat \<Rightarrow> char" where
  "digit_char d = ''0123456789'' ! d"

fun show_nat :: "nat \<Rightarrow> string" where
  "show_nat n = (if n < 10 then [digit_char n] else show_nat (n div 10) @ [digit_char (n mod 10)])"

declare show_nat.simps [simp del]

definition insert_employee :: "string \<Rightarrow> string \<Rightarrow> int \<Rightarrow> db \<Rightarrow> int \<times> db" where
  "insert_employee name whatsapp now s =
     (let i = next_rowid (seq_employees s) (map e_id (employees s))
      in (i, s\<lparr>employees := employees s @
                [\<lparr>e_id = i, e_name = name, e_whatsapp = whatsapp, e_created_at = now\<rparr>],
              seq_employees := i\<rparr>))"

definition insert_product ::
  "string \<Rightarrow> string \<Rightarrow> real \<Rightarrow> string option \<Rightarrow> int \<Rightarrow> db \<Rightarrow> int \<times> db" where
  "insert_product name category price photo now s =
     (let i = next_rowid (seq_products s) (map p_id (products s))
      in (i, s\<lparr>products := products s @
                [\<lparr>p_id = i, p_name = name, p_category = category, p_price = price,
                  p_photo = photo, p_status = ''active'', p_created_at = now\<rparr>],
              seq_products := i\<rparr>))"

definition insert_case ::
  "bool \<Rightarrow> string \<Rightarrow> int option \<Rightarrow> string option \<Rightarrow> int \<Rightarrow> int \<Rightarrow> case_status \<Rightarrow> db
     \<Rightarrow> (int \<times> db) option" where
  "insert_case fk name employee_id photo delivery_date return_date status s =
     (if parent_exists fk employee_id (map e_id (employees s)) then
        (let i = next_rowid (seq_cases s) (map c_id (cases s))
         in Some (i, s\<lparr>cases := cases s @
                  [\<lparr>c_id = i, c_name = name, c_employee_id = employee_id, c_photo = photo,
                    c_delivery_date = delivery_date, c_return_date = return_date,
                    c_status = status, c_total_value = 0\<rparr>],
                seq_cases := i\<rparr>))
      else None)"

definition insert_case_item :: "bool \<Rightarrow> int \<Rightarrow> int \<Rightarrow> int \<Rightarrow> real \<Rightarrow> db \<Rightarrow> db option" where
  "insert_case_item fk case_id product_id quantity price s =
     (if parent_exists fk (Some case_id) (map c_id (cases s))
         \<and> parent_exists fk (Some product_id) (map p_id (products s)) then
        (let i = next_rowid (seq_case_items s) (map ci_id (case_items s))
         in Some (s\<lparr>case_items := case_items s @
                  [\<lparr>ci_id = i, ci_case_id = case_id, ci_product_id = product_id,
                    ci_quantity = quantity, ci_price_at_time = price\<rparr>],
                seq_case_items := i\<rparr>))
      else None)"

definition insert_log :: "int option \<Rightarrow> string \<Rightarrow> string \<Rightarrow> int \<Rightarrow> db \<Rightarrow> db" where
  "insert_log case_id action details now s =
     (let i = next_rowid (seq_logs s) (map l_id (logs s))
      in s\<lparr>logs := logs s @
              [\<lparr>l_id = i, l_case_id = case_id, l_action = action, l_details = details,
                l_created_at = now\<rparr>],
            seq_logs := i\<rparr>)"

definition insert_manual_commission ::
  "bool \<Rightarrow> int \<Rightarrow> string \<Rightarrow> real \<Rightarrow> real \<Rightarrow> int \<Rightarrow> db \<Rightarrow> (int \<times> db) option" where
  "insert_manual_commission fk employee_id product_name price commission_value now s =
     (if parent_exists fk (Some employee_id) (map e_id (employees s)) then
        (let i = next_rowid (seq_manual_commissions s) (map mc_id (manual_commissions s))
         in Some (i, s\<lparr>manual_commissions := manual_commissions s @
                  [\<lparr>mc_id = i, mc_employee_id = employee_id, mc_product_name = product_name,
                    mc_price = price, mc_commission_value = commission_value,
                    mc_created_at = now\<rparr>],
                seq_manual_commissions := i\<rparr>))
      else None)"

text \<open>\<^verbatim>\<open>UPDATE cases SET total_value = ? WHERE id = ?\<close>\<close>

definition update_total_value :: "real \<Rightarrow> int \<Rightarrow> db \<Rightarrow> db" where
  "update_total_value total_value case_id s =
     s\<lparr>cases := map (\<lambda>c. if c_id c = case_id then c\<lparr>c_total_value := total_value\<rparr> else c)
                      (cases s)\<rparr>"

text \<open>\<^verbatim>\<open>UPDATE cases SET name = ?, employee_id = ?, status = ? WHERE id = ?\<close>\<close>

definition update_case :: "bool \<Rightarrow> string \<Rightarrow> int option \<Rightarrow> case_status \<Rightarrow> int \<Rightarrow> db \<Rightarrow> db option" where
  "update_case fk name employee_id status case_id s =
     (if case_id \<in> set (map c_id (cases s))
         \<and> \<not> parent_exists fk employee_id (map e_id (employees s)) then None
      else Some (s\<lparr>cases := map (\<lambda>c. if c_id c = case_id
                   then c\<lparr>c_name := name, c_employee_id := employee_id, c_status := status\<rparr>
                   else c) (cases s)\<rparr>))"

text \<open>\<^verbatim>\<open>DELETE FROM case_items WHERE case_id = ?\<close>\<close>

definition delete_case_items :: "int \<Rightarrow> db \<Rightarrow> db" where
  "delete_case_items case_id s =
     s\<lparr>case_items := filter (\<lambda>i. ci_case_id i \<noteq> case_id) (case_items s)\<rparr>"

text \<open>\<^verbatim>\<open>DELETE FROM logs WHERE case_id = ?\<close>\<close>

definition delete_case_logs :: "int \<Rightarrow> db \<Rightarrow> db" where
  "delete_case_logs case_id s =
     s\<lparr>logs := filter (\<lambda>l. l_case_id l \<noteq> Some case_id) (logs s)\<rparr>"

text \<open>\<^verbatim>\<open>DELETE FROM cases WHERE id = ?\<close>: refused while an enforced child row remains.\<close>

definition delete_case_row :: "bool \<Rightarrow> int \<Rightarrow> db \<Rightarrow> db option" where
  "delete_case_row fk case_id s =
     (if fk \<and> case_id \<in> set (map c_id (cases s))
         \<and> case_id \<in> set (map ci_case_id (case_items s)) then None
      else Some (s\<lparr>cases := filter (\<lambda>c. c_id c \<noteq> case_id) (cases s)\<rparr>))"

text \<open>\<^verbatim>\<open>DELETE FROM employees WHERE id = ?\<close>\<close>

definition delete_employee_row :: "bool \<Rightarrow> int \<Rightarrow> db \<Rightarrow> db option" where
  "delete_employee_row fk employee_id s =
     (if fk \<and> employee_id \<in> set (map e_id (employees s))
         \<and> (Some employee_id \<in> set (map c_employee_id (cases s))
              \<or> employee_id \<in> set (map mc_employee_id (manual_commissions s))) then None
      else Some (s\<lparr>employees := filter (\<lambda>e. e_id e \<noteq> employee_id) (employees s)\<rparr>))"

section \<open>Request handlers\<close>

text \<open>
  A handler maps the database to a response and the database after it. A transaction whose
  body throws is rolled back by \<^verbatim>\<open>db.transaction\<close>, and a statement that throws outside a
  transaction changes nothing: in both cases the handler answers with the uncaught error
  and the database is the one it started from. Request bodies are taken well-typed against
  the interfaces of the client (\<^verbatim>\<open>employee_id: number | null\<close>, numeric prices and
  quantities), and the \<^verbatim>\<open>:id\<close> path parameter as the integer it spells.
\<close>

datatype response =
    Json_id int
  | Json_success
  | Json_sent string string bool
  | Status_400 string
  | Status_404 string
  | Uncaught_SqliteError

record item_body =
  it_product_id :: int
  it_quantity :: int
  it_price :: real

subsection \<open>Employees\<close>

text \<open>
  \<^verbatim>\<open>GET /api/employees\<close>: every employee row with \<^verbatim>\<open>total_sales\<close>. The primary key makes
  each \<^verbatim>\<open>GROUP BY e.id\<close> group the join rows of one employee; an employee without a case
  contributes a single all-\<^verbatim>\<open>NULL\<close> join row, whose sum is \<^verbatim>\<open>NULL\<close>.
\<close>

definition get_employees :: "db \<Rightarrow> (employee_row \<times> real) list" where
  "get_employees s =
     map (\<lambda>e. (e, coalesce0 (sql_sum (map c_total_value
                   (filter (\<lambda>c. c_employee_id c = Some (e_id e)) (cases s))))))
         (employees s)"

definition post_employees :: "int \<Rightarrow> string \<Rightarrow> string \<Rightarrow> db \<Rightarrow> response \<times> db" where
  "post_employees current_timestamp name whatsapp s =
     (case insert_employee name whatsapp current_timestamp s of (i, s') \<Rightarrow> (Json_id i, s'))"

definition put_employees :: "int \<Rightarrow> string \<Rightarrow> string \<Rightarrow> db \<Rightarrow> response \<times> db" where
  "put_employees employee_id name whatsapp s =
     (Json_success,
      s\<lparr>employees := map (\<lambda>e. if e_id e = employee_id
                                then e\<lparr>e_name := name, e_whatsapp := whatsapp\<rparr> else e)
                          (employees s)\<rparr>)"

definition delete_employees :: "bool \<Rightarrow> int \<Rightarrow> db \<Rightarrow> response \<times> db" where
  "delete_employees fk employee_id s =
     (let activeCases =
            sql_count (\<lambda>c. c_employee_id c = Some employee_id \<and> c_status c = EM_CAMPO) (cases s)
      in if activeCases > 0 then (Status_400 ''Vendedora possui maletas em campo.'', s)
         else (case delete_employee_row fk employee_id s of
                 None \<Rightarrow> (Uncaught_SqliteError, s)
               | Some s' \<Rightarrow> (Json_success, s')))"

subsection \<open>Products\<close>

definition get_products :: "db \<Rightarrow> product_row list" where
  "get_products s = filter (\<lambda>p. p_status p = ''active'') (products s)"

definition post_products ::
  "int \<Rightarrow> string \<Rightarrow> string \<Rightarrow> real \<Rightarrow> string option \<Rightarrow> db \<Rightarrow> response \<times> db" where
  "post_products current_timestamp name category price photo s =
     (case insert_product name category price photo current_timestamp s of
        (i, s') \<Rightarrow> (Json_id i, s'))"

definition put_products ::
  "int \<Rightarrow> string \<Rightarrow> string \<Rightarrow> real \<Rightarrow> string option \<Rightarrow> db \<Rightarrow> response \<times> db" where
  "put_products product_id name category price photo s =
     (Json_success,
      s\<lparr>products := map (\<lambda>p. if p_id p = product_id
                               then p\<lparr>p_name := name, p_category := category, p_price := price,
                                      p_photo := photo\<rparr>
                               else p)
                         (products s)\<rparr>)"

definition delete_products :: "int \<Rightarrow> db \<Rightarrow> response \<times> db" where
  "delete_products product_id s =
     (Json_success,
      s\<lparr>products := map (\<lambda>p. if p_id p = product_id then p\<lparr>p_status := ''removed''\<rparr> else p)
                         (products s)\<rparr>)"

subsection \<open>Cases\<close>

text \<open>The loop \<^verbatim>\<open>for (const item of items)\<close> with its accumulator \<^verbatim>\<open>totalValue\<close>.\<close>

fun insert_items :: "bool \<Rightarrow> int \<Rightarrow> item_body list \<Rightarrow> real \<Rightarrow> db \<Rightarrow> (real \<times> db) option" where
  "insert_items fk caseId [] totalValue s = Some (totalValue, s)"
| "insert_items fk caseId (item # rest) totalValue s =
     (case insert_case_item fk caseId (it_product_id item) (it_quantity item) (it_price item) s of
        None \<Rightarrow> None
      | Some s' \<Rightarrow>
          insert_items fk caseId rest
            (js_add totalValue (js_mul (it_price item) (of_int (it_quantity item)))) s')"

definition post_cases_transaction ::
  "bool \<Rightarrow> int \<Rightarrow> int \<Rightarrow> int \<Rightarrow> string \<Rightarrow> int option \<Rightarrow> string option \<Rightarrow> item_body list
     \<Rightarrow> db \<Rightarrow> (int \<times> db) option" where
  "post_cases_transaction fk delivery_date return_date current_timestamp name employee_id photo
       items s =
     (case insert_case fk name employee_id photo delivery_date return_date
             (if truthy employee_id then EM_CAMPO else PARADO) s of
        None \<Rightarrow> None
      | Some (caseId, s1) \<Rightarrow>
          (case insert_items fk caseId items 0 s1 of
             None \<Rightarrow> None
           | Some (totalValue, s2) \<Rightarrow>
               Some (caseId,
                 insert_log (Some caseId) ''CREATE''
                   (''Maleta criada com '' @ show_nat (length items) @ '' itens.'')
                   current_timestamp (update_total_value totalValue caseId s2))))"

text \<open>
  \<^verbatim>\<open>POST /api/cases\<close>. The handler reads the clock twice, \<^verbatim>\<open>new Date()\<close> for the delivery
  date and \<^verbatim>\<open>Date.now()\<close> for the return date: the two readings are \<open>date_new\<close> and
  \<open>date_now\<close>.
\<close>

definition post_cases ::
  "bool \<Rightarrow> int \<Rightarrow> int \<Rightarrow> int \<Rightarrow> string \<Rightarrow> int option \<Rightarrow> string option \<Rightarrow> item_body list
     \<Rightarrow> db \<Rightarrow> response \<times> db" where
  "post_cases fk date_new date_now current_timestamp name employee_id photo items s =
     (let delivery_date = date_new;
          return_date = date_now + 60 * 24 * 60 * 60 * 1000
      in case post_cases_transaction fk delivery_date return_date current_timestamp name
                employee_id photo items s of
           None \<Rightarrow> (Uncaught_SqliteError, s)
         | Some (caseId, s') \<Rightarrow> (Json_id caseId, s'))"

definition put_cases_transaction ::
  "bool \<Rightarrow> int \<Rightarrow> int \<Rightarrow> string \<Rightarrow> int option \<Rightarrow> case_status \<Rightarrow> item_body list option
     \<Rightarrow> db \<Rightarrow> db option" where
  "put_cases_transaction fk current_timestamp caseId name employee_id status items s =
     (case update_case fk name employee_id status caseId s of
        None \<Rightarrow> None
      | Some s1 \<Rightarrow>
          (case (case items of
                   None \<Rightarrow> Some s1
                 | Some its \<Rightarrow>
                     (case insert_items fk caseId its 0 (delete_case_items caseId s1) of
                        None \<Rightarrow> None
                      | Some (totalValue, s2) \<Rightarrow>
                          Some (update_total_value totalValue caseId s2))) of
             None \<Rightarrow> None
           | Some s3 \<Rightarrow>
               Some (insert_log (Some caseId) ''UPDATE'' ''Maleta atualizada.''
                       current_timestamp s3)))"

definition put_cases ::
  "bool \<Rightarrow> int \<Rightarrow> int \<Rightarrow> string \<Rightarrow> int option \<Rightarrow> case_status \<Rightarrow> item_body list option
     \<Rightarrow> db \<Rightarrow> response \<times> db" where
  "put_cases fk current_timestamp caseId name employee_id status items s =
     (case put_cases_transaction fk current_timestamp caseId name employee_id status items s of
        None \<Rightarrow> (Uncaught_SqliteError, s)
      | Some s' \<Rightarrow> (Json_success, s'))"

definition delete_cases_transaction :: "bool \<Rightarrow> int \<Rightarrow> db \<Rightarrow> db option" where
  "delete_cases_transaction fk caseId s =
     delete_case_row fk caseId (delete_case_logs caseId (delete_case_items caseId s))"

definition delete_cases :: "bool \<Rightarrow> int \<Rightarrow> db \<Rightarrow> response \<times> db" where
  "delete_cases fk caseId s =
     (case delete_cases_transaction fk caseId s of
        None \<Rightarrow> (Uncaught_SqliteError, s)
      | Some s' \<Rightarrow> (Json_success, s'))"

text \<open>\<^verbatim>\<open>POST /api/cases/:id/log\<close>\<close>

definition post_case_log :: "int \<Rightarrow> int \<Rightarrow> string \<Rightarrow> string \<Rightarrow> db \<Rightarrow> response \<times> db" where
  "post_case_log current_timestamp caseId action details s =
     (Json_success, insert_log (Some caseId) action details current_timestamp s)"

subsection \<open>Manual commissions\<close>

definition post_manual_commissions ::
  "bool \<Rightarrow> int \<Rightarrow> int \<Rightarrow> string \<Rightarrow> real \<Rightarrow> real \<Rightarrow> db \<Rightarrow> response \<times> db" where
  "post_manual_commissions fk current_timestamp employee_id product_name price commission_value s =
     (case insert_manual_commission fk employee_id product_name price commission_value
             current_timestamp s of
        None \<Rightarrow> (Uncaught_SqliteError, s)
      | Some (i, s') \<Rightarrow> (Json_id i, s'))"

definition delete_manual_commissions :: "int \<Rightarrow> db \<Rightarrow> response \<times> db" where
  "delete_manual_commissions commission_id s =
     (Json_success,
      s\<lparr>manual_commissions := filter (\<lambda>m. mc_id m \<noteq> commission_id) (manual_commissions s)\<rparr>)"

subsection \<open>Messaging gateway\<close>

text \<open>
  \<^verbatim>\<open>POST /api/whatsapp/send\<close>, the simulated gateway: it looks the agent up, logs the event
  against \<^verbatim>\<open>req.body.case_id || null\<close> and answers with a preview (recipient, the first 100
  characters of the message followed by three dots, whether media came along). Console
  output is left out; letters outside ASCII in the literals are their UTF-8 bytes.
\<close>

definition truthy_str :: "string option \<Rightarrow> bool" where
  "truthy_str v = (case v of None \<Rightarrow> False | Some t \<Rightarrow> t \<noteq> [])"

definition post_whatsapp_send ::
  "int \<Rightarrow> int \<Rightarrow> string \<Rightarrow> string option \<Rightarrow> string option \<Rightarrow> int option \<Rightarrow> db
     \<Rightarrow> response \<times> db" where
  "post_whatsapp_send current_timestamp employee_id message photo pdf_base64 case_id s =
     (case find (\<lambda>e. e_id e = employee_id) (employees s) of
        None \<Rightarrow>
          (Status_404 (''Vendedora n'' @ [char_of (195 :: nat), char_of (163 :: nat)]
             @ ''o encontrada''), s)
      | Some employee \<Rightarrow>
          (Json_sent (e_whatsapp employee) (take 100 message @ ''...'')
             (truthy_str photo \<or> truthy_str pdf_base64),
           insert_log (if truthy case_id then case_id else None) ''WHATSAPP_API''
             (''Envio autom'' @ [char_of (195 :: nat), char_of (161 :: nat)]
                @ ''tico via API para '' @ e_name employee)
             current_timestamp s))"

subsection \<open>Dashboard statistics\<close>

record stats =
  vgv :: real
  activeCases :: int
  premiumCases :: int
  totalEmployees :: int
  salesByEmployee :: "(string \<times> real) list"

definition get_stats :: "db \<Rightarrow> stats" where
  "get_stats s =
     (let vgvCases = sql_sum (map c_total_value (filter (\<lambda>c. c_status c \<noteq> PARADO) (cases s)));
          vgvManual = sql_sum (map mc_price (manual_commissions s))
      in \<lparr>vgv = js_or0 vgvCases + js_or0 vgvManual,
          activeCases = sql_count (\<lambda>c. c_status c = EM_CAMPO) (cases s),
          premiumCases = sql_count (\<lambda>c. c_total_value c > 8000) (cases s),
          totalEmployees = sql_count (\<lambda>e. True) (employees s),
          salesByEmployee =
            map (\<lambda>e. (e_name e,
                   coalesce0 (sql_sum (map c_total_value
                      (filter (\<lambda>c. c_employee_id c = Some (e_id e)) (cases s))))
                   + coalesce0 (sql_sum (map mc_price
                      (filter (\<lambda>m. mc_employee_id m = e_id e) (manual_commissions s))))))
                (employees s)\<rparr>)"

section \<open>Notions used by the properties\<close>

text \<open>
  The line items of a case, and the sum of price times quantity over line items as
  JavaScript computes it: every product rounded to a double, the products added from 0 in
  list order, every partial sum rounded. The exact sums stand beside them.
\<close>

definition case_items_of :: "db \<Rightarrow> int \<Rightarrow> case_item_row list" where
  "case_items_of s caseId = filter (\<lambda>i. ci_case_id i = caseId) (case_items s)"

definition items_total :: "case_item_row list \<Rightarrow> real" where
  "items_total rows =
     foldl js_add 0 (map (\<lambda>i. js_mul (ci_price_at_time i) (of_int (ci_quantity i))) rows)"

definition body_total :: "item_body list \<Rightarrow> real" where
  "body_total its =
     foldl js_add 0 (map (\<lambda>it. js_mul (it_price it) (of_int (it_quantity it))) its)"







text \<open>The columns of a line item other than its rowid, and the row a request item becomes.\<close>

definition item_columns :: "case_item_row \<Rightarrow> int \<times> int \<times> int \<times> real" where
  "item_columns i = (ci_case_id i, ci_product_id i, ci_quantity i, ci_price_at_time i)"

definition body_columns :: "int \<Rightarrow> item_body \<Rightarrow> int \<times> int \<times> int \<times> real" where
  "body_columns caseId it = (caseId, it_product_id it, it_quantity it, it_price it)"

text \<open>
  The declared constraint \<^verbatim>\<open>FOREIGN KEY (case_id) REFERENCES cases(id)\<close> as a predicate on
  the database: every line item belongs to a stored case.
\<close>

definition items_reference_cases :: "db \<Rightarrow> bool" where
  "items_reference_cases s =
     list_all (\<lambda>i. ci_case_id i \<in> set (map c_id (cases s))) (case_items s)"

text \<open>Rowids handed out by \<^verbatim>\<open>AUTOINCREMENT\<close> are positive.\<close>

definition employee_ids_positive :: "db \<Rightarrow> bool" where
  "employee_ids_positive s = list_all (\<lambda>e. 0 < e_id e) (employees s)"

text \<open>What the foreign keys, where enforced, ask of the references in a request.\<close>

definition employee_ref_ok :: "bool \<Rightarrow> int option \<Rightarrow> db \<Rightarrow> bool" where
  "employee_ref_ok fk employee_id s = parent_exists fk employee_id (map e_id (employees s))"

definition product_refs_ok :: "bool \<Rightarrow> item_body list \<Rightarrow> db \<Rightarrow> bool" where
  "product_refs_ok fk its s =
     list_all (\<lambda>it. parent_exists fk (Some (it_product_id it)) (map p_id (products s))) its"

definition case_ref_ok :: "bool \<Rightarrow> int \<Rightarrow> db \<Rightarrow> bool" where
  "case_ref_ok fk caseId s = parent_exists fk (Some caseId) (map c_id (cases s))"


text \<open>The stored total of every case row with the given id is the sum over its line items.\<close>

definition total_consistent :: "db \<Rightarrow> int \<Rightarrow> bool" where
  "total_consistent s caseId =
     list_all (\<lambda>c. c_id c \<noteq> caseId \<or> c_total_value c = items_total (case_items_of s caseId))
       (cases s)"

text \<open>The cases of an agent that are in the field, and whether any row refers to the agent.\<close>

definition in_field_cases_of :: "db \<Rightarrow> int \<Rightarrow> case_row list" where
  "in_field_cases_of s e =
     filter (\<lambda>c. c_employee_id c = Some e \<and> c_status c = EM_CAMPO) (cases s)"

definition employee_referenced :: "db \<Rightarrow> int \<Rightarrow> bool" where
  "employee_referenced s e =
     (Some e \<in> set (map c_employee_id (cases s))
      \<or> e \<in> set (map mc_employee_id (manual_commissions s)))"

section \<open>Reachable databases\<close>

text \<open>
  The databases the server can be in: the empty one that start-up creates when the database
  file is new, and what any mutating request makes of a reachable one, whatever its
  arguments.
\<close>

inductive reachable :: "bool \<Rightarrow> db \<Rightarrow> bool" for fk :: bool where
  start: "reachable fk empty_db"
| employee_posted:
    "reachable fk s \<Longrightarrow> reachable fk (snd (post_employees ts name whatsapp s))"
| employee_put:
    "reachable fk s \<Longrightarrow> reachable fk (snd (put_employees employee_id name whatsapp s))"
| employee_deleted:
    "reachable fk s \<Longrightarrow> reachable fk (snd (delete_employees fk employee_id s))"
| product_posted:
    "reachable fk s \<Longrightarrow> reachable fk (snd (post_products ts name category price photo s))"
| product_put:
    "reachable fk s \<Longrightarrow>
       reachable fk (snd (put_products product_id name category price photo s))"
| product_deleted:
    "reachable fk s \<Longrightarrow> reachable fk (snd (delete_products product_id s))"
| case_posted:
    "reachable fk s \<Longrightarrow>
       reachable fk (snd (post_cases fk date_new date_now ts name e photo items s))"
| case_put:
    "reachable fk s \<Longrightarrow>
       reachable fk (snd (put_cases fk ts caseId name e st opt_items s))"
| case_deleted:
    "reachable fk s \<Longrightarrow> reachable fk (snd (delete_cases fk caseId s))"
| case_logged:
    "reachable fk s \<Longrightarrow> reachable fk (snd (post_case_log ts caseId action details s))"
| commission_posted:
    "reachable fk s \<Longrightarrow>
       reachable fk (snd (post_manual_commissions fk ts employee_id product_name price
                           commission_value s))"
| commission_deleted:
    "reachable fk s \<Longrightarrow> reachable fk (snd (delete_manual_commissions commission_id s))"
| message_sent:
    "reachable fk s \<Longrightarrow>
       reachable fk (snd (post_whatsapp_send ts employee_id message photo pdf_base64
                           opt_case_id s))"

section \<open>Example databases\<close>

text \<open>
  Databases reached from the empty one through the handlers: one agent; one agent and one
  product; then a case of two necklaces at 3000 handed to the agent; then a manual
  commission of price 200 for her; the case taken back from the field; from the roster
  alone, a manual commission without any case; and the case in the field with its items
  replaced by three necklaces at 2500.
\<close>

definition roster_db :: db where
  "roster_db = snd (post_employees 0 ''Ana'' ''5511999990000'' empty_db)"

definition catalog_db :: db where
  "catalog_db = snd (post_products 0 ''Colar'' ''corrente'' 3000 None roster_db)"

definition field_db :: "bool \<Rightarrow> db" where
  "field_db fk = snd (post_cases fk 0 0 0 ''Mala 1'' (Some 1) None
       [\<lparr>it_product_id = 1, it_quantity = 2, it_price = 3000\<rparr>] catalog_db)"


definition returned_db :: "bool \<Rightarrow> db" where
  "returned_db fk = snd (put_cases fk 0 1 ''Mala 1'' (Some 1) PARADO None (field_db fk))"

definition manual_db :: "bool \<Rightarrow> db" where
  "manual_db fk = snd (post_manual_commissions fk 0 1 ''Anel'' 200 60 roster_db)"

text \<open>
  Without enforcement: an update of a case that does not exist, with one item, on the
  catalog database.
\<close>

definition stray_db :: db where
  "stray_db = snd (put_cases False 0 1 ''Mala'' None PARADO
       (Some [\<lparr>it_product_id = 1, it_quantity = 1, it_price = 10\<rparr>]) catalog_db)"




section \<open>Rounding to a double\<close>

lemma ilog2_bracket:
  "2 powi k \<le> x \<Longrightarrow> x < 2 powi (k + 1) \<Longrightarrow> ilog2 x = k"
proof (induction x arbitrary: k rule: ilog2.induct)
  case (1 x)
  have pos: "0 < x" using "1.prems"(1) zero_less_power_int [of "2 :: real" k] by linarith
  show ?case
  proof (cases "2 \<le> x")
    case True
    have "(2::real) powi (k - 1) = 2 powi k / 2" by (simp add: power_int_diff)
    moreover have "(2::real) powi (k + 1) = 2 powi k * 2" by (simp add: power_int_add)
    ultimately have "2 powi (k - 1) \<le> x / 2" "x / 2 < 2 powi (k - 1 + 1)"
      using "1.prems" by simp_all
    then have "ilog2 (x / 2) = k - 1" using "1.IH"(1) [OF True] by blast
    with True show ?thesis by (subst ilog2.simps) simp
  next
    case False
    show ?thesis
    proof (cases "x < 1")
      case True
      have "(2::real) powi (k + 1) = 2 powi k * 2" by (simp add: power_int_add)
      moreover have "(2::real) powi (k + 1 + 1) = 2 powi (k + 1) * 2" by (simp add: power_int_add)
      ultimately have "2 powi (k + 1) \<le> x * 2" "x * 2 < 2 powi (k + 1 + 1)"
        using "1.prems" by simp_all
      then have "ilog2 (x * 2) = k + 1" using "1.IH"(2) [OF False] pos True by blast
      with False pos True show ?thesis by (subst ilog2.simps) simp
    next
      case ge1: False
      have "(2::real) powi k < 2 powi 1" using "1.prems"(1) False by simp
      then have "k < 1" by (rule power_int_le_imp_less_exp [rotated]) simp_all
      have "\<not> k + 1 \<le> 0"
      proof
        assume "k + 1 \<le> 0"
        then have "(2::real) powi (k + 1) \<le> 2 powi 0" by (intro power_int_increasing) simp_all
        with "1.prems"(2) ge1 show False by simp
      qed
      with \<open>k < 1\<close> have "k = 0" by simp
      with False ge1 show ?thesis by (subst ilog2.simps) simp
    qed
  qed
qed

lemma to_double_eval:
  assumes "2 powi k \<le> \<bar>x\<bar>" and "\<bar>x\<bar> < 2 powi (k + 1)"
  shows "to_double x = of_int (round_ties_even (x / 2 powi max (- 1074) (k - 52)))
            * 2 powi max (- 1074) (k - 52)"
  using ilog2_bracket [OF assms] by (simp add: to_double_def ulp_exponent_def)


lemma ilog2_bounds:
  "0 < x \<Longrightarrow> 2 powi ilog2 x \<le> x \<and> x < 2 powi (ilog2 x + 1)"
proof (induction x rule: ilog2.induct)
  case (1 x)
  show ?case
  proof (cases "2 \<le> x")
    case True
    then have eq: "ilog2 x = ilog2 (x / 2) + 1" by (subst ilog2.simps) simp
    from True "1.prems" have "0 < x / 2" by simp
    with "1.IH"(1) [OF True] have
      "2 powi ilog2 (x / 2) \<le> x / 2" "x / 2 < 2 powi (ilog2 (x / 2) + 1)" by simp_all
    then show ?thesis unfolding eq by (simp add: power_int_add)
  next
    case False
    show ?thesis
    proof (cases "x < 1")
      case True
      with False "1.prems" have eq: "ilog2 x = ilog2 (x * 2) - 1" by (subst ilog2.simps) simp
      from "1.prems" have "0 < x * 2" by simp
      with "1.IH"(2) [OF False] "1.prems" True have
        "2 powi ilog2 (x * 2) \<le> x * 2" "x * 2 < 2 powi (ilog2 (x * 2) + 1)" by simp_all
      then show ?thesis unfolding eq by (simp add: power_int_diff power_int_add)
    next
      case ge1: False
      with False have "ilog2 x = 0" by (subst ilog2.simps) simp
      with False ge1 show ?thesis by simp
    qed
  qed
qed

lemma round_ties_even_of_int: "round_ties_even (of_int n) = n"
  by (simp add: round_ties_even_def)

lemma to_double_representable:
  assumes m: "\<bar>m\<bar> < 2 ^ 53" and e: "- 1074 \<le> e"
  shows "to_double (of_int m * 2 powi e) = of_int m * 2 powi e"
proof (cases "m = 0")
  case True
  then show ?thesis by (simp add: to_double_def round_ties_even_def)
next
  case False
  define x :: real where "x = of_int m * 2 powi e"
  define u where "u = ulp_exponent x"
  have ax: "\<bar>x\<bar> = of_int \<bar>m\<bar> * 2 powi e" by (simp add: x_def abs_mult)
  have pos: "0 < \<bar>x\<bar>" using False by (simp add: x_def)
  have "of_int \<bar>m\<bar> < (2 :: real) ^ 53" using m by (metis of_int_less_numeral_power_cancel_iff)
  then have "\<bar>x\<bar> < 2 ^ 53 * 2 powi e" unfolding ax by simp
  also have "\<dots> = 2 powi (53 + e)" by (simp add: power_int_add)
  finally have up: "\<bar>x\<bar> < 2 powi (53 + e)" .
  have "ilog2 \<bar>x\<bar> < 53 + e"
  proof (rule ccontr)
    assume "\<not> ilog2 \<bar>x\<bar> < 53 + e"
    then have "(2 :: real) powi (53 + e) \<le> 2 powi ilog2 \<bar>x\<bar>"
      by (intro power_int_increasing) simp_all
    with ilog2_bounds [OF pos] up show False by linarith
  qed
  with e have ue: "u \<le> e" by (simp add: u_def ulp_exponent_def)
  define j where "j = nat (e - u)"
  have ej: "e = u + int j" using ue by (simp add: j_def)
  have "x / 2 powi u = of_int m * 2 powi (e - u)"
    by (simp add: x_def power_int_diff)
  also have "\<dots> = of_int (m * 2 ^ j)" using ue by (simp add: j_def power_int_def)
  finally have q: "x / 2 powi u = of_int (m * 2 ^ j)" .
  have "to_double x = of_int (m * 2 ^ j) * 2 powi u"
    unfolding to_double_def u_def [symmetric] q round_ties_even_of_int ..
  also have "\<dots> = of_int m * (2 powi int j * 2 powi u)" by simp
  also have "2 powi int j * 2 powi u = (2 :: real) powi e"
    unfolding ej by (simp add: power_int_add)
  finally show ?thesis by (simp add: x_def)
qed

lemma to_double_of_int: "\<bar>n\<bar> < 2 ^ 53 \<Longrightarrow> to_double (of_int n) = of_int n"
  using to_double_representable [of n 0] by simp

lemma to_double_numeral [simp]:
  "numeral w < (2 :: int) ^ 53 \<Longrightarrow> to_double (numeral w) = numeral w"
  using to_double_of_int [of "numeral w"] by simp

lemma to_double_0 [simp]: "to_double 0 = 0"
  by (simp add: to_double_def round_ties_even_def)



lemma to_double_0_3: "to_double (3 / 10) = 5404319552844595 / 18014398509481984"
  by (subst to_double_eval [where k = "- 2"]) (simp_all add: round_ties_even_def)

lemma to_double_0_4: "to_double (2 / 5) = 3602879701896397 / 9007199254740992"
  by (subst to_double_eval [where k = "- 2"]) (simp_all add: round_ties_even_def)

lemma to_double_4999_99: "to_double (499999 / 100) = 2748773571881861 / 549755813888"
  by (subst to_double_eval [where k = 12]) (simp_all add: round_ties_even_def)

lemma to_double_5000_01: "to_double (500001 / 100) = 2748784566998139 / 549755813888"
  by (subst to_double_eval [where k = 12]) (simp_all add: round_ties_even_def)

lemma rate_40: "js_mul (3602879701896397 / 9007199254740992) 100 = 40"
  unfolding js_mul_def
  by (subst to_double_eval [where k = 5]) (simp_all add: round_ties_even_def)

lemma rate_30: "js_mul (5404319552844595 / 18014398509481984) 100 = 30"
  unfolding js_mul_def
  by (subst to_double_eval [where k = 4]) (simp_all add: round_ties_even_def)

lemma payout_4999_99:
  "js_mul (2748773571881861 / 549755813888) (5404319552844595 / 18014398509481984)
     = 3298528286258233 / 2199023255552"
  unfolding js_mul_def
  by (subst to_double_eval [where k = 10]) (simp_all add: round_ties_even_def)






section \<open>SQL aggregates as list functions\<close>

lemma sql_count_filter: "sql_count P rs = int (length (filter P rs))"
  by (induction rs) simp_all

lemma coalesce0_sql_sum: "coalesce0 (sql_sum xs) = sum_list xs"
  by (induction xs) (simp_all add: coalesce0_def split: option.splits)


section \<open>Fresh rowids and the item loop\<close>

lemma fold_max_ge_init: "(a::int) \<le> fold max ids a"
proof (induction ids arbitrary: a)
  case Nil
  then show ?case by simp
next
  case (Cons y ys)
  have "a \<le> max y a" by simp
  also have "\<dots> \<le> fold max ys (max y a)" by (rule Cons.IH)
  finally show ?case by simp
qed

lemma fold_max_ge_elem: "x \<in> set ids \<Longrightarrow> (x::int) \<le> fold max ids a"
proof (induction ids arbitrary: a)
  case Nil
  then show ?case by simp
next
  case (Cons y ys)
  show ?case
  proof (cases "x = y")
    case True
    have "y \<le> max y a" by simp
    also have "\<dots> \<le> fold max ys (max y a)" by (rule fold_max_ge_init)
    finally show ?thesis using True by simp
  next
    case False
    with Cons.prems have "x \<in> set ys" by simp
    then show ?thesis using Cons.IH by simp
  qed
qed

lemma next_rowid_fresh: "next_rowid seq ids \<notin> set ids"
proof
  assume "next_rowid seq ids \<in> set ids"
  then have "next_rowid seq ids \<le> fold max ids 0" by (rule fold_max_ge_elem)
  then show False by (simp add: next_rowid_def)
qed

lemma next_rowid_positive: "0 < next_rowid seq ids"
  using fold_max_ge_init [of 0 ids] by (simp add: next_rowid_def)

lemma insert_items_effect:
  "insert_items fk cid its tv s = Some (tv', s') \<Longrightarrow>
     tv' = foldl js_add tv (map (\<lambda>it. js_mul (it_price it) (of_int (it_quantity it))) its)
     \<and> (\<exists>new. case_items s' = case_items s @ new \<and> map item_columns new = map (body_columns cid) its)
     \<and> cases s' = cases s \<and> employees s' = employees s \<and> products s' = products s
     \<and> manual_commissions s' = manual_commissions s \<and> logs s' = logs s"
proof (induction its arbitrary: tv s)
  case Nil
  then show ?case by simp
next
  case (Cons it its)
  from Cons.prems obtain s1 where
    s1: "insert_case_item fk cid (it_product_id it) (it_quantity it) (it_price it) s = Some s1"
    and rest: "insert_items fk cid its
        (js_add tv (js_mul (it_price it) (of_int (it_quantity it)))) s1 = Some (tv', s')"
    by (auto split: option.splits)
  from s1 obtain r where r: "case_items s1 = case_items s @ [r]" "item_columns r = body_columns cid it"
    and fr: "cases s1 = cases s" "employees s1 = employees s" "products s1 = products s"
     "manual_commissions s1 = manual_commissions s" "logs s1 = logs s"
    by (auto simp: insert_case_item_def Let_def item_columns_def body_columns_def split: if_splits)
  from Cons.IH[OF rest] obtain new where
    new: "case_items s' = case_items s1 @ new" "map item_columns new = map (body_columns cid) its"
    and tv': "tv' = foldl js_add (js_add tv (js_mul (it_price it) (of_int (it_quantity it))))
        (map (\<lambda>it. js_mul (it_price it) (of_int (it_quantity it))) its)"
    and fr': "cases s' = cases s1" "employees s' = employees s1" "products s' = products s1"
     "manual_commissions s' = manual_commissions s1" "logs s' = logs s1"
    by auto
  have "case_items s' = case_items s @ (r # new)" using r new by simp
  moreover have "map item_columns (r # new) = map (body_columns cid) (it # its)" using r new by simp
  ultimately have "\<exists>new. case_items s' = case_items s @ new \<and> map item_columns new = map (body_columns cid) (it # its)"
    by blast
  with tv' fr fr' show ?case by simp
qed

lemma insert_items_succeeds:
  "its = [] \<or> (case_ref_ok fk cid s \<and> product_refs_ok fk its s) \<Longrightarrow>
     \<exists>tv' s'. insert_items fk cid its tv s = Some (tv', s')"
proof (induction its arbitrary: tv s)
  case Nil
  then show ?case by simp
next
  case (Cons it its)
  then have ok: "case_ref_ok fk cid s" "product_refs_ok fk (it # its) s" by auto
  then obtain s1 where
    s1: "insert_case_item fk cid (it_product_id it) (it_quantity it) (it_price it) s = Some s1"
    and fr: "cases s1 = cases s" "products s1 = products s"
    by (auto simp: insert_case_item_def Let_def case_ref_ok_def product_refs_ok_def)
  from ok fr have "case_ref_ok fk cid s1 \<and> product_refs_ok fk its s1"
    by (simp add: case_ref_ok_def product_refs_ok_def)
  then have "\<exists>tv' s'. insert_items fk cid its
      (js_add tv (js_mul (it_price it) (of_int (it_quantity it)))) s1 = Some (tv', s')"
    using Cons.IH by blast
  with s1 show ?case by simp
qed



lemma insert_items_fails:
  "\<not> product_refs_ok fk its s \<Longrightarrow> insert_items fk cid its tv s = None"
proof (induction its arbitrary: tv s)
  case Nil
  then show ?case by (simp add: product_refs_ok_def)
next
  case (Cons it its)
  show ?case
  proof (cases "insert_case_item fk cid (it_product_id it) (it_quantity it) (it_price it) s")
    case None
    then show ?thesis by simp
  next
    case (Some s1)
    then have ok: "parent_exists fk (Some (it_product_id it)) (map p_id (products s))"
      and fr: "products s1 = products s"
      by (auto simp: insert_case_item_def Let_def split: if_splits)
    with Cons.prems have "\<not> product_refs_ok fk its s1"
      by (simp add: product_refs_ok_def)
    then have "insert_items fk cid its
        (js_add tv (js_mul (it_price it) (of_int (it_quantity it)))) s1 = None"
      by (rule Cons.IH)
    with Some show ?thesis by simp
  qed
qed

lemma map_unmatched_id:
  "i \<notin> set (map c_id cs) \<Longrightarrow> map (\<lambda>c. if c_id c = i then f c else c) cs = cs"
  by (induction cs) simp_all

text \<open>The outcome of \<open>post_cases\<close>.\<close>

lemma post_cases_success:
  assumes e: "employee_ref_ok fk employee_id s" and p: "product_refs_ok fk items s"
  shows "\<exists>s' new l.
      post_cases fk date_new date_now ts name employee_id photo items s
        = (Json_id (next_rowid (seq_cases s) (map c_id (cases s))), s')
    \<and> cases s' = cases s @
         [\<lparr>c_id = next_rowid (seq_cases s) (map c_id (cases s)), c_name = name,
           c_employee_id = employee_id, c_photo = photo,
           c_delivery_date = date_new, c_return_date = date_now + 5184000000,
           c_status = (if truthy employee_id then EM_CAMPO else PARADO),
           c_total_value = body_total items\<rparr>]
    \<and> case_items s' = case_items s @ new
    \<and> map item_columns new = map (body_columns (next_rowid (seq_cases s) (map c_id (cases s)))) items
    \<and> logs s' = logs s @ [l]
    \<and> l_case_id l = Some (next_rowid (seq_cases s) (map c_id (cases s)))
    \<and> l_action l = ''CREATE''
    \<and> l_details l = ''Maleta criada com '' @ show_nat (length items) @ '' itens.''
    \<and> employees s' = employees s \<and> products s' = products s
    \<and> manual_commissions s' = manual_commissions s"
proof -
  define i where "i = next_rowid (seq_cases s) (map c_id (cases s))"
  define row where "row = \<lparr>c_id = i, c_name = name,
           c_employee_id = employee_id, c_photo = photo,
           c_delivery_date = date_new, c_return_date = date_now + 5184000000,
           c_status = (if truthy employee_id then EM_CAMPO else PARADO),
           c_total_value = 0\<rparr>"
  define s1 where "s1 = s\<lparr>cases := cases s @ [row], seq_cases := i\<rparr>"
  have ins: "insert_case fk name employee_id photo date_new (date_now + 5184000000)
      (if truthy employee_id then EM_CAMPO else PARADO) s = Some (i, s1)"
    using e by (simp add: insert_case_def employee_ref_ok_def Let_def i_def row_def s1_def)
  have "case_ref_ok fk i s1" by (simp add: case_ref_ok_def parent_exists_def s1_def row_def)
  moreover have "product_refs_ok fk items s1" using p by (simp add: product_refs_ok_def s1_def)
  ultimately obtain tv s2 where its: "insert_items fk i items 0 s1 = Some (tv, s2)"
    using insert_items_succeeds [of items fk i s1 0] by blast
  from insert_items_effect [OF its] obtain new where
    tv: "tv = body_total items"
    and new: "case_items s2 = case_items s1 @ new" "map item_columns new = map (body_columns i) items"
    and fr: "cases s2 = cases s1" "employees s2 = employees s1" "products s2 = products s1"
      "manual_commissions s2 = manual_commissions s1" "logs s2 = logs s1"
    by (auto simp: body_total_def)
  define l where "l = \<lparr>l_id = next_rowid (seq_logs s2) (map l_id (logs s2)), l_case_id = Some i,
      l_action = ''CREATE'',
      l_details = ''Maleta criada com '' @ show_nat (length items) @ '' itens.'', l_created_at = ts\<rparr>"
  define s' where "s' = insert_log (Some i) ''CREATE''
      (''Maleta criada com '' @ show_nat (length items) @ '' itens.'') ts
      (update_total_value tv i s2)"
  have res: "post_cases fk date_new date_now ts name employee_id photo items s = (Json_id i, s')"
    using ins its by (simp add: post_cases_def post_cases_transaction_def Let_def s'_def)
  have fresh: "i \<notin> set (map c_id (cases s))" unfolding i_def by (rule next_rowid_fresh)
  then have same: "map (\<lambda>c. if c_id c = i then c\<lparr>c_total_value := tv\<rparr> else c) (cases s) = cases s"
    by (rule map_unmatched_id)
  have c: "cases s' = cases s @ [row\<lparr>c_total_value := body_total items\<rparr>]"
    using fr tv
    by (simp add: s'_def insert_log_def update_total_value_def Let_def s1_def row_def
        map_unmatched_id [OF fresh])
  have ci: "case_items s' = case_items s @ new"
    using new by (simp add: s'_def insert_log_def update_total_value_def Let_def s1_def)
  have lg: "logs s' = logs s @ [l]"
    using fr by (simp add: s'_def insert_log_def update_total_value_def Let_def s1_def l_def)
  have rest: "employees s' = employees s \<and> products s' = products s
    \<and> manual_commissions s' = manual_commissions s"
    using fr by (simp add: s'_def insert_log_def update_total_value_def Let_def s1_def)
  show ?thesis
    using res c ci new(2) lg rest unfolding i_def [symmetric]
    by (intro exI [of _ s'] exI [of _ new] exI [of _ l]) (simp add: row_def l_def)
qed

lemma post_cases_failure:
  assumes "\<not> (employee_ref_ok fk employee_id s \<and> product_refs_ok fk items s)"
  shows "post_cases fk date_new date_now ts name employee_id photo items s = (Uncaught_SqliteError, s)"
proof (cases "employee_ref_ok fk employee_id s")
  case False
  then show ?thesis
    by (simp add: post_cases_def post_cases_transaction_def insert_case_def employee_ref_ok_def Let_def)
next
  case True
  with assms have np: "\<not> product_refs_ok fk items s" by simp
  show ?thesis
  proof (cases "insert_case fk name employee_id photo date_new (date_now + 5184000000)
      (if truthy employee_id then EM_CAMPO else PARADO) s")
    case None
    then show ?thesis by (simp add: post_cases_def post_cases_transaction_def Let_def)
  next
    case (Some r)
    obtain i s1 where r: "r = (i, s1)" by (cases r)
    with Some have "products s1 = products s"
      by (auto simp: insert_case_def Let_def split: if_splits)
    with np have "\<not> product_refs_ok fk items s1" by (simp add: product_refs_ok_def)
    then have "insert_items fk i items 0 s1 = None" by (rule insert_items_fails)
    with Some r show ?thesis by (simp add: post_cases_def post_cases_transaction_def Let_def)
  qed
qed


text \<open>The outcome of \<open>put_cases\<close>.\<close>

lemma put_cases_outcome:
  "put_cases fk ts caseId name e st items s = (Uncaught_SqliteError, s)
   \<or> (\<exists>s'. put_cases fk ts caseId name e st items s = (Json_success, s'))"
  by (simp add: put_cases_def split: option.splits)


lemma put_cases_items_effect:
  assumes "put_cases fk ts caseId name e st (Some items) s = (Json_success, s')"
  shows "\<exists>new l.
       case_items s' = filter (\<lambda>i. ci_case_id i \<noteq> caseId) (case_items s) @ new
     \<and> map item_columns new = map (body_columns caseId) items
     \<and> cases s' = map (\<lambda>c. if c_id c = caseId
            then c\<lparr>c_name := name, c_employee_id := e, c_status := st,
                   c_total_value := body_total items\<rparr>
            else c) (cases s)
     \<and> logs s' = logs s @ [l]
     \<and> l_case_id l = Some caseId \<and> l_action l = ''UPDATE'' \<and> l_details l = ''Maleta atualizada.''
     \<and> employees s' = employees s \<and> products s' = products s
     \<and> manual_commissions s' = manual_commissions s"
proof -
  from assms obtain s1 tv s2 where
    u: "update_case fk name e st caseId s = Some s1"
    and its: "insert_items fk caseId items 0 (delete_case_items caseId s1) = Some (tv, s2)"
    and s': "s' = insert_log (Some caseId) ''UPDATE'' ''Maleta atualizada.'' ts
               (update_total_value tv caseId s2)"
    by (auto simp: put_cases_def put_cases_transaction_def split: option.splits)
  from u have s1: "s1 = s\<lparr>cases := map (\<lambda>c. if c_id c = caseId
                 then c\<lparr>c_name := name, c_employee_id := e, c_status := st\<rparr> else c)
               (cases s)\<rparr>"
    by (auto simp: update_case_def split: if_splits)
  from insert_items_effect [OF its] obtain new where
    tv: "tv = body_total items"
    and new: "case_items s2 = case_items (delete_case_items caseId s1) @ new"
      "map item_columns new = map (body_columns caseId) items"
    and fr: "cases s2 = cases (delete_case_items caseId s1)"
      "employees s2 = employees (delete_case_items caseId s1)"
      "products s2 = products (delete_case_items caseId s1)"
      "manual_commissions s2 = manual_commissions (delete_case_items caseId s1)"
      "logs s2 = logs (delete_case_items caseId s1)"
    by (auto simp: body_total_def)
  define l where "l = \<lparr>l_id = next_rowid (seq_logs s2) (map l_id (logs s2)), l_case_id = Some caseId,
      l_action = ''UPDATE'', l_details = ''Maleta atualizada.'', l_created_at = ts\<rparr>"
  have ci: "case_items s' = filter (\<lambda>i. ci_case_id i \<noteq> caseId) (case_items s) @ new"
    using new(1)
    by (simp add: s' s1 insert_log_def update_total_value_def delete_case_items_def Let_def)
  have c: "cases s' = map (\<lambda>c. if c_id c = caseId
            then c\<lparr>c_name := name, c_employee_id := e, c_status := st,
                   c_total_value := body_total items\<rparr>
            else c) (cases s)"
    using fr(1) tv
    by (simp add: s' s1 insert_log_def update_total_value_def delete_case_items_def Let_def
        comp_def if_distrib cong: if_cong)
  have lg: "logs s' = logs s @ [l]"
    using fr(5)
    by (simp add: s' s1 insert_log_def update_total_value_def delete_case_items_def Let_def l_def)
  have rest: "employees s' = employees s \<and> products s' = products s
     \<and> manual_commissions s' = manual_commissions s"
    using fr
    by (simp add: s' s1 insert_log_def update_total_value_def delete_case_items_def Let_def)
  show ?thesis
    using ci new(2) c lg rest
    by (intro exI [of _ new] exI [of _ l]) (simp add: l_def)
qed








section \<open>Evaluating the example databases\<close>

lemma show_nat_1: "show_nat (Suc 0) = ''1''"
  by (simp add: show_nat.simps digit_char_def)

lemma roster_db_eq:
  "roster_db = \<lparr>employees = [\<lparr>e_id = 1, e_name = ''Ana'', e_whatsapp = ''5511999990000'',
        e_created_at = 0\<rparr>],
     products = [], cases = [], case_items = [], manual_commissions = [], logs = [],
     seq_employees = 1, seq_products = 0, seq_cases = 0, seq_case_items = 0,
     seq_manual_commissions = 0, seq_logs = 0\<rparr>"
  by (simp add: roster_db_def post_employees_def insert_employee_def next_rowid_def
      empty_db_def Let_def)

lemma catalog_db_eq:
  "catalog_db = \<lparr>employees = [\<lparr>e_id = 1, e_name = ''Ana'', e_whatsapp = ''5511999990000'',
        e_created_at = 0\<rparr>],
     products = [\<lparr>p_id = 1, p_name = ''Colar'', p_category = ''corrente'', p_price = 3000,
        p_photo = None, p_status = ''active'', p_created_at = 0\<rparr>],
     cases = [], case_items = [], manual_commissions = [], logs = [],
     seq_employees = 1, seq_products = 1, seq_cases = 0, seq_case_items = 0,
     seq_manual_commissions = 0, seq_logs = 0\<rparr>"
  by (simp add: catalog_db_def roster_db_eq post_products_def insert_product_def next_rowid_def
      Let_def)

lemma field_db_eq:
  "field_db fk = \<lparr>employees = [\<lparr>e_id = 1, e_name = ''Ana'', e_whatsapp = ''5511999990000'',
        e_created_at = 0\<rparr>],
     products = [\<lparr>p_id = 1, p_name = ''Colar'', p_category = ''corrente'', p_price = 3000,
        p_photo = None, p_status = ''active'', p_created_at = 0\<rparr>],
     cases = [\<lparr>c_id = 1, c_name = ''Mala 1'', c_employee_id = Some 1, c_photo = None,
        c_delivery_date = 0, c_return_date = 5184000000, c_status = EM_CAMPO,
        c_total_value = 6000\<rparr>],
     case_items = [\<lparr>ci_id = 1, ci_case_id = 1, ci_product_id = 1, ci_quantity = 2,
        ci_price_at_time = 3000\<rparr>],
     manual_commissions = [],
     logs = [\<lparr>l_id = 1, l_case_id = Some 1, l_action = ''CREATE'',
        l_details = ''Maleta criada com 1 itens.'', l_created_at = 0\<rparr>],
     seq_employees = 1, seq_products = 1, seq_cases = 1, seq_case_items = 1,
     seq_manual_commissions = 0, seq_logs = 1\<rparr>"
  by (simp add: field_db_def catalog_db_eq post_cases_def post_cases_transaction_def
      insert_case_def insert_case_item_def insert_log_def update_total_value_def next_rowid_def
      parent_exists_def truthy_def Let_def js_add_def js_mul_def show_nat_1)


lemma returned_db_eq:
  "returned_db fk = (field_db fk)\<lparr>
     cases := [\<lparr>c_id = 1, c_name = ''Mala 1'', c_employee_id = Some 1, c_photo = None,
        c_delivery_date = 0, c_return_date = 5184000000, c_status = PARADO,
        c_total_value = 6000\<rparr>],
     logs := [\<lparr>l_id = 1, l_case_id = Some 1, l_action = ''CREATE'',
        l_details = ''Maleta criada com 1 itens.'', l_created_at = 0\<rparr>,
       \<lparr>l_id = 2, l_case_id = Some 1, l_action = ''UPDATE'',
        l_details = ''Maleta atualizada.'', l_created_at = 0\<rparr>],
     seq_logs := 2\<rparr>"
  by (simp add: returned_db_def field_db_eq put_cases_def put_cases_transaction_def
      update_case_def insert_log_def next_rowid_def parent_exists_def Let_def)

lemma manual_db_eq:
  "manual_db fk = roster_db\<lparr>manual_commissions := [\<lparr>mc_id = 1, mc_employee_id = 1,
        mc_product_name = ''Anel'', mc_price = 200, mc_commission_value = 60,
        mc_created_at = 0\<rparr>],
     seq_manual_commissions := 1\<rparr>"
  by (simp add: manual_db_def roster_db_eq post_manual_commissions_def
      insert_manual_commission_def next_rowid_def parent_exists_def Let_def)





lemma get_employees_total_sales:
  "get_employees s =
     map (\<lambda>e. (e, sum_list (map c_total_value
                   (filter (\<lambda>c. c_employee_id c = Some (e_id e)) (cases s)))))
         (employees s)"
  by (simp add: get_employees_def coalesce0_sql_sum)

lemma map_unmatched_product:
  "i \<notin> set (map p_id ps) \<Longrightarrow> map (\<lambda>p. if p_id p = i then f p else p) ps = ps"
  by (induction ps) simp_all

section \<open>Invariants of the reachable databases\<close>

text \<open>
  With foreign keys enforced, every line item of a reachable database belongs to a stored
  case; and whatever the setting, the agents of a reachable database have positive ids.
\<close>

lemma insert_log_frame:
  "employees (insert_log c a d t s) = employees s"
  "cases (insert_log c a d t s) = cases s"
  "case_items (insert_log c a d t s) = case_items s"
  by (simp_all add: insert_log_def Let_def)

lemma post_cases_outcome:
  "post_cases fk date_new date_now ts name e photo items s = (Uncaught_SqliteError, s)
   \<or> (\<exists>s' new. post_cases fk date_new date_now ts name e photo items s
          = (Json_id (next_rowid (seq_cases s) (map c_id (cases s))), s')
        \<and> map c_id (cases s') = map c_id (cases s) @ [next_rowid (seq_cases s) (map c_id (cases s))]
        \<and> case_items s' = case_items s @ new
        \<and> map item_columns new
            = map (body_columns (next_rowid (seq_cases s) (map c_id (cases s)))) items
        \<and> employees s' = employees s)"
proof (cases "employee_ref_ok fk e s \<and> product_refs_ok fk items s")
  case False
  then show ?thesis by (simp add: post_cases_failure)
next
  case True
  with post_cases_success [of fk e s items date_new date_now ts name photo]
  obtain s' new where
    "post_cases fk date_new date_now ts name e photo items s
       = (Json_id (next_rowid (seq_cases s) (map c_id (cases s))), s')"
    "cases s' = cases s @
         [\<lparr>c_id = next_rowid (seq_cases s) (map c_id (cases s)), c_name = name,
           c_employee_id = e, c_photo = photo,
           c_delivery_date = date_new, c_return_date = date_now + 5184000000,
           c_status = (if truthy e then EM_CAMPO else PARADO),
           c_total_value = body_total items\<rparr>]"
    "case_items s' = case_items s @ new"
    "map item_columns new = map (body_columns (next_rowid (seq_cases s) (map c_id (cases s)))) items"
    "employees s' = employees s"
    by blast
  then show ?thesis by simp
qed

lemma put_cases_None_outcome:
  "put_cases fk ts caseId name e st None s = (Uncaught_SqliteError, s)
   \<or> put_cases fk ts caseId name e st None s =
     (Json_success,
      insert_log (Some caseId) ''UPDATE'' ''Maleta atualizada.'' ts
        (s\<lparr>cases := map (\<lambda>c. if c_id c = caseId
                 then c\<lparr>c_name := name, c_employee_id := e, c_status := st\<rparr> else c)
               (cases s)\<rparr>))"
  by (simp add: put_cases_def put_cases_transaction_def update_case_def)











lemma items_reference_cases_frame:
  "cases s' = cases s \<Longrightarrow> case_items s' = case_items s \<Longrightarrow>
     items_reference_cases s' = items_reference_cases s"
  by (simp add: items_reference_cases_def)


lemma put_cases_employees:
  "employees (snd (put_cases fk ts caseId name e st opt_items s)) = employees s"
proof (cases opt_items)
  case None
  from put_cases_None_outcome [of fk ts caseId name e st s] None
  show ?thesis by (auto simp: insert_log_frame)
next
  case (Some items)
  from put_cases_outcome [of fk ts caseId name e st "Some items" s]
  show ?thesis
  proof
    assume "put_cases fk ts caseId name e st (Some items) s = (Uncaught_SqliteError, s)"
    with Some show ?thesis by simp
  next
    assume "\<exists>s'. put_cases fk ts caseId name e st (Some items) s = (Json_success, s')"
    then obtain s' where
      res: "put_cases fk ts caseId name e st (Some items) s = (Json_success, s')" by blast
    from put_cases_items_effect [OF res] have "employees s' = employees s" by blast
    with res Some show ?thesis by simp
  qed
qed

lemma post_cases_employees:
  "employees (snd (post_cases fk date_new date_now ts name e photo items s)) = employees s"
  using post_cases_outcome [of fk date_new date_now ts name e photo items s] by auto

lemma renamed_employees_positive:
  "list_all (\<lambda>e. 0 < e_id e) es \<Longrightarrow>
     list_all (\<lambda>e. 0 < e_id e)
       (map (\<lambda>e. if e_id e = i then e\<lparr>e_name := n, e_whatsapp := w\<rparr> else e) es)"
  by (induction es) simp_all

lemma reachable_employee_ids_positive:
  "reachable fk s \<Longrightarrow> employee_ids_positive s"
proof (induction rule: reachable.induct)
  case start
  show ?case by (simp add: employee_ids_positive_def empty_db_def)
next
  case (employee_posted s ts name whatsapp)
  then show ?case
    by (simp add: employee_ids_positive_def post_employees_def insert_employee_def Let_def
        next_rowid_positive)
next
  case (employee_put s employee_id name whatsapp)
  then show ?case
    by (simp add: employee_ids_positive_def put_employees_def renamed_employees_positive)
next
  case (employee_deleted s employee_id)
  then show ?case
    by (simp add: employee_ids_positive_def delete_employees_def delete_employee_row_def
        Let_def list_all_iff)
next
  case (product_posted s ts name category price photo)
  then show ?case
    by (simp add: employee_ids_positive_def post_products_def insert_product_def Let_def)
next
  case (product_put s product_id name category price photo)
  then show ?case by (simp add: employee_ids_positive_def put_products_def)
next
  case (product_deleted s product_id)
  then show ?case by (simp add: employee_ids_positive_def delete_products_def)
next
  case (case_posted s date_new date_now ts name e photo items)
  then show ?case by (simp add: employee_ids_positive_def post_cases_employees)
next
  case (case_put s ts caseId name e st opt_items)
  then show ?case by (simp add: employee_ids_positive_def put_cases_employees)
next
  case (case_deleted s caseId)
  then show ?case
    by (simp add: employee_ids_positive_def delete_cases_def delete_cases_transaction_def
        delete_case_row_def delete_case_logs_def delete_case_items_def)
next
  case (case_logged s ts caseId action details)
  then show ?case
    by (simp add: employee_ids_positive_def post_case_log_def insert_log_frame)
next
  case (commission_posted s ts employee_id product_name price commission_value)
  then show ?case
    by (simp add: employee_ids_positive_def post_manual_commissions_def
        insert_manual_commission_def Let_def)
next
  case (commission_deleted s commission_id)
  then show ?case by (simp add: employee_ids_positive_def delete_manual_commissions_def)
next
  case (message_sent s ts employee_id message photo pdf_base64 opt_case_id)
  then show ?case
    by (simp add: employee_ids_positive_def post_whatsapp_send_def insert_log_frame
        split: option.splits)
qed

lemma reachable_catalog_db: "reachable fk catalog_db"
  unfolding catalog_db_def roster_db_def
  by (intro reachable.product_posted reachable.employee_posted reachable.start)

text \<open>
  Without enforcement the first invariant can be lost: an update with items of a case id
  that does not exist leaves line items behind, and the case that later receives that id is
  created with a total that is not the sum over its line items.
\<close>

lemma stray_db_eq:
  "stray_db = catalog_db\<lparr>
     case_items := [\<lparr>ci_id = 1, ci_case_id = 1, ci_product_id = 1, ci_quantity = 1,
        ci_price_at_time = 10\<rparr>],
     logs := [\<lparr>l_id = 1, l_case_id = Some 1, l_action = ''UPDATE'',
        l_details = ''Maleta atualizada.'', l_created_at = 0\<rparr>],
     seq_case_items := 1, seq_logs := 1\<rparr>"
  by (simp add: stray_db_def catalog_db_eq put_cases_def put_cases_transaction_def
      update_case_def delete_case_items_def insert_case_item_def update_total_value_def
      insert_log_def next_rowid_def parent_exists_def Let_def js_add_def js_mul_def)

lemma show_nat_0: "show_nat 0 = ''0''"
  by (simp add: show_nat.simps digit_char_def)

lemma unenforced_stray_items:
  "reachable False stray_db \<and> \<not> items_reference_cases stray_db
   \<and> fst (post_cases False 0 0 0 ''Mala'' None None [] stray_db) = Json_id 1
   \<and> \<not> total_consistent (snd (post_cases False 0 0 0 ''Mala'' None None [] stray_db)) 1"
proof -
  have a: "reachable False stray_db"
    unfolding stray_db_def by (intro reachable.case_put reachable_catalog_db)
  have b: "\<not> items_reference_cases stray_db"
    by (simp add: items_reference_cases_def stray_db_eq catalog_db_eq)
  have c: "post_cases False 0 0 0 ''Mala'' None None [] stray_db =
    (Json_id 1, stray_db\<lparr>cases := [\<lparr>c_id = 1, c_name = ''Mala'', c_employee_id = None,
        c_photo = None, c_delivery_date = 0, c_return_date = 5184000000, c_status = PARADO,
        c_total_value = 0\<rparr>],
      logs := [\<lparr>l_id = 1, l_case_id = Some 1, l_action = ''UPDATE'',
        l_details = ''Maleta atualizada.'', l_created_at = 0\<rparr>,
        \<lparr>l_id = 2, l_case_id = Some 1, l_action = ''CREATE'',
        l_details = ''Maleta criada com 0 itens.'', l_created_at = 0\<rparr>],
      seq_cases := 1, seq_logs := 2\<rparr>)"
    by (simp add: stray_db_eq catalog_db_eq post_cases_def post_cases_transaction_def
      insert_case_def insert_log_def update_total_value_def next_rowid_def
      parent_exists_def truthy_def Let_def show_nat_0)
  have d: "\<not> total_consistent (snd (post_cases False 0 0 0 ''Mala'' None None [] stray_db)) 1"
    unfolding c
    by (simp add: total_consistent_def case_items_of_def items_total_def js_add_def js_mul_def
        stray_db_eq catalog_db_eq)
  show ?thesis using a b c d by simp
qed

section \<open>Cases with prices that are not whole\<close>






section \<open>The decimal numeral of the item count\<close>










section \<open>Commission tiers\<close>

text \<open>
  C2, as the code has it. The commission is a function of the total alone: the rate, in
  percent, is exactly 40 from 5000 upwards, the boundary included, and exactly 30 below;
  the payout is the double product of the total and the double that 0.4 or 0.3 denotes,
  that is, the total times that double, rounded to the nearest double. The rates at the
  doubles of 4999.99, 5000 and 5000.01 are 30, 40 and 40 percent.
\<close>

theorem calculateCommission_tiers:
  "fst (calculateCommission t) = (if t \<ge> 5000 then 40 else 30)
   \<and> snd (calculateCommission t) =
        to_double (t * (if t \<ge> 5000 then to_double 0.4 else to_double 0.3))
   \<and> to_double 0.4 = 3602879701896397 / 9007199254740992
   \<and> to_double 0.3 = 5404319552844595 / 18014398509481984
   \<and> fst (calculateCommission (to_double 4999.99)) = 30
   \<and> fst (calculateCommission 5000) = 40
   \<and> fst (calculateCommission (to_double 5000.01)) = 40"
proof -
  have r: "fst (calculateCommission t) = (if t \<ge> 5000 then 40 else 30)" for t
    by (simp add: calculateCommission_def Let_def to_double_0_4 to_double_0_3 rate_40 rate_30)
  have p: "snd (calculateCommission t) =
        to_double (t * (if t \<ge> 5000 then to_double 0.4 else to_double 0.3))"
    by (simp add: calculateCommission_def Let_def js_mul_def)
  have a: "to_double 0.4 = 3602879701896397 / 9007199254740992"
    by (simp add: to_double_0_4)
  have b: "to_double 0.3 = 5404319552844595 / 18014398509481984"
    by (simp add: to_double_0_3)
  have c: "fst (calculateCommission (to_double 4999.99)) = 30"
    by (simp add: r to_double_4999_99)
  have d: "fst (calculateCommission 5000) = 40"
    by (simp add: r)
  have e: "fst (calculateCommission (to_double 5000.01)) = 40"
    by (simp add: r to_double_5000_01)
  show ?thesis by (intro conjI r p a b c d e)
qed

text \<open>
  At the double of 4999.99 the payout is 1499.9969999999998 as a double, which is not that
  total times 30 percent.
\<close>

theorem calculateCommission_payout_counterexample:
  "to_double 4999.99 = 2748773571881861 / 549755813888
   \<and> snd (calculateCommission (2748773571881861 / 549755813888))
       = 3298528286258233 / 2199023255552
   \<and> (2748773571881861 / 549755813888 :: real) * (30 / 100)
       \<noteq> 3298528286258233 / 2199023255552"
proof -
  have a: "to_double 4999.99 = 2748773571881861 / 549755813888"
    by (simp add: to_double_4999_99)
  have b: "snd (calculateCommission (2748773571881861 / 549755813888))
       = 3298528286258233 / 2199023255552"
    by (simp add: calculateCommission_def Let_def to_double_0_3 payout_4999_99)
  have c: "(2748773571881861 / 549755813888 :: real) * (30 / 100)
       \<noteq> 3298528286258233 / 2199023255552"
    by simp
  show ?thesis by (intro conjI a b c)
qed

section \<open>Premium flag\<close>

text \<open>
  C9. A case is premium exactly when its total value is strictly above 8000: at 8000 it is
  not, at 8000.01 it is. The flag is no column of the case row; the dashboard count is
  recomputed from the stored totals on every read and counts exactly the premium cases.
\<close>

theorem premium_strictly_above_8000:
  "(isPremium c \<longleftrightarrow> c_total_value c > 8000)
   \<and> \<not> isPremium (c\<lparr>c_total_value := 8000\<rparr>)
   \<and> isPremium (c\<lparr>c_total_value := 8000.01\<rparr>)
   \<and> premiumCases (get_stats s) = int (length (filter isPremium (cases s)))"
  by (simp add: get_stats_def Let_def sql_count_filter isPremium_def [abs_def])

section \<open>Creating a case\<close>




section \<open>The stored total of a case\<close>




section \<open>Updating a case\<close>



section \<open>Deleting a case\<close>

text \<open>
  C6. Deleting a case always succeeds and removes its line items, the log entries that
  refer to it and the case row, and nothing else: afterwards no line item, no log entry and
  no case row carries that case id.
\<close>

theorem delete_cases_removes_items_logs_and_row:
  "delete_cases fk caseId s =
     (Json_success,
      s\<lparr>case_items := filter (\<lambda>i. ci_case_id i \<noteq> caseId) (case_items s),
        logs := filter (\<lambda>l. l_case_id l \<noteq> Some caseId) (logs s),
        cases := filter (\<lambda>c. c_id c \<noteq> caseId) (cases s)\<rparr>)
   \<and> caseId \<notin> ci_case_id ` set (case_items (snd (delete_cases fk caseId s)))
   \<and> Some caseId \<notin> l_case_id ` set (logs (snd (delete_cases fk caseId s)))
   \<and> caseId \<notin> c_id ` set (cases (snd (delete_cases fk caseId s)))"
proof -
  have nochild: "caseId \<notin> ci_case_id ` {i \<in> set (case_items s). ci_case_id i \<noteq> caseId}"
    by blast
  have "delete_cases fk caseId s =
     (Json_success,
      s\<lparr>case_items := filter (\<lambda>i. ci_case_id i \<noteq> caseId) (case_items s),
        logs := filter (\<lambda>l. l_case_id l \<noteq> Some caseId) (logs s),
        cases := filter (\<lambda>c. c_id c \<noteq> caseId) (cases s)\<rparr>)"
    using nochild
    by (simp add: delete_cases_def delete_cases_transaction_def delete_case_row_def
        delete_case_logs_def delete_case_items_def)
  then show ?thesis by auto
qed

section \<open>Deleting an agent\<close>

text \<open>
  What the handler answers: the conflict error (status 400) exactly when a case of the agent
  is in the field, and then the database is unchanged; without such a case, success and the
  removal of the agent's row alone, when no case and no manual commission refers to the
  agent or foreign keys are not enforced.
\<close>

lemma delete_employees_outcomes:
  "(fst (delete_employees fk e s) = Status_400 ''Vendedora possui maletas em campo.''
      \<longleftrightarrow> in_field_cases_of s e \<noteq> [])
   \<and> (in_field_cases_of s e \<noteq> [] \<longrightarrow> snd (delete_employees fk e s) = s)
   \<and> (in_field_cases_of s e = [] \<and> (\<not> fk \<or> \<not> employee_referenced s e) \<longrightarrow>
        delete_employees fk e s =
          (Json_success, s\<lparr>employees := filter (\<lambda>r. e_id r \<noteq> e) (employees s)\<rparr>))"
proof -
  have cnt: "sql_count (\<lambda>c. c_employee_id c = Some e \<and> c_status c = EM_CAMPO) (cases s) > 0
      \<longleftrightarrow> in_field_cases_of s e \<noteq> []"
    by (simp add: sql_count_filter in_field_cases_of_def)
  have a: "fst (delete_employees fk e s) = Status_400 ''Vendedora possui maletas em campo.''
      \<longleftrightarrow> in_field_cases_of s e \<noteq> []"
    using cnt by (simp add: delete_employees_def Let_def split: option.splits)
  have b: "in_field_cases_of s e \<noteq> [] \<longrightarrow> snd (delete_employees fk e s) = s"
    using cnt by (simp add: delete_employees_def Let_def)
  have c: "in_field_cases_of s e = [] \<and> (\<not> fk \<or> \<not> employee_referenced s e) \<longrightarrow>
        delete_employees fk e s =
          (Json_success, s\<lparr>employees := filter (\<lambda>r. e_id r \<noteq> e) (employees s)\<rparr>)"
    using cnt
    by (auto simp: delete_employees_def Let_def delete_employee_row_def employee_referenced_def)
  show ?thesis by (intro conjI a b c)
qed

text \<open>
  C5. The handler guards the deletion against cases in the field only, then deletes and
  answers success. With foreign keys enforced, as in the driver's build, an agent whose only
  case is idle again, or who has a manual commission and no case at all, has no case in the
  field, and yet the delete statement is refused: the handler throws instead of answering
  success or the conflict error, and the row stays, where the claim has the deletion
  succeed and remove the row.
\<close>

theorem delete_employees_refuses_referenced_agent:
  "in_field_cases_of (returned_db True) 1 = []
   \<and> map c_status (cases (returned_db True)) = [PARADO]
   \<and> delete_employees True 1 (returned_db True) = (Uncaught_SqliteError, returned_db True)
   \<and> in_field_cases_of (manual_db True) 1 = []
   \<and> cases (manual_db True) = []
   \<and> delete_employees True 1 (manual_db True) = (Uncaught_SqliteError, manual_db True)"
proof -
  have a: "in_field_cases_of (returned_db True) 1 = []"
    by (simp add: in_field_cases_of_def returned_db_eq field_db_eq)
  have b: "map c_status (cases (returned_db True)) = [PARADO]"
    by (simp add: returned_db_eq field_db_eq)
  have c: "delete_employees True 1 (returned_db True) = (Uncaught_SqliteError, returned_db True)"
    by (simp add: delete_employees_def delete_employee_row_def returned_db_eq field_db_eq)
  have d: "in_field_cases_of (manual_db True) 1 = []"
    by (simp add: in_field_cases_of_def manual_db_eq roster_db_eq)
  have e: "cases (manual_db True) = []"
    by (simp add: manual_db_eq roster_db_eq)
  have f: "delete_employees True 1 (manual_db True) = (Uncaught_SqliteError, manual_db True)"
    by (simp add: delete_employees_def delete_employee_row_def manual_db_eq roster_db_eq)
  show ?thesis by (intro conjI a b c d e f)
qed

section \<open>Unknown product ids\<close>

text \<open>
  C4, as the code has it. Updating or soft-deleting a product under an id that no product
  has answers success and leaves the database as it was.
\<close>

theorem products_unknown_id_silent:
  assumes "product_id \<notin> set (map p_id (products s))"
  shows "put_products product_id name category price photo s = (Json_success, s)
     \<and> delete_products product_id s = (Json_success, s)"
  using assms by (simp add: put_products_def delete_products_def map_unmatched_product)

theorem products_unknown_id_silent_witness:
  "7 \<notin> set (map p_id (products catalog_db))
   \<and> put_products 7 ''Anel'' ''anel'' 10 None catalog_db = (Json_success, catalog_db)
   \<and> delete_products 7 catalog_db = (Json_success, catalog_db)"
proof -
  have h: "7 \<notin> set (map p_id (products catalog_db))" by (simp add: catalog_db_eq)
  show ?thesis using h products_unknown_id_silent [OF h, of "''Anel''" "''anel''" 10 None]
    by simp
qed

text \<open>
  The catalog holds product 1 only; updating and soft-deleting product 7 both answer
  success, not an error.
\<close>

theorem products_unknown_id_counterexample:
  "map p_id (products catalog_db) = [1]
   \<and> fst (put_products 7 ''Anel'' ''anel'' 10 None catalog_db) = Json_success
   \<and> fst (delete_products 7 catalog_db) = Json_success"
  by (simp add: catalog_db_eq put_products_def delete_products_def)

section \<open>Sales per agent\<close>

text \<open>
  C3. With one agent, no case and one manual commission of price 200 for her,
  \<^verbatim>\<open>GET /api/employees\<close> reports \<^verbatim>\<open>total_sales\<close> 0, where the claim asks for 200; the
  statistics query reports 200 for the same agent.
\<close>

theorem get_employees_omits_manual_commissions:
  "map mc_price (filter (\<lambda>m. mc_employee_id m = 1) (manual_commissions (manual_db fk))) = [200]
   \<and> filter (\<lambda>c. c_employee_id c = Some 1) (cases (manual_db fk)) = []
   \<and> map (\<lambda>(e, total_sales). (e_id e, total_sales)) (get_employees (manual_db fk)) = [(1, 0)]
   \<and> salesByEmployee (get_stats (manual_db fk)) = [(''Ana'', 200)]"
  by (simp add: manual_db_eq roster_db_eq get_employees_def get_stats_def coalesce0_def)

section \<open>Dashboard statistics\<close>


end
